theory Spec2Isabelle
  imports
    Main
    "HOL-Library.List_Lexorder"
begin

section \<open>Strings\<close>

text \<open>
  A Python \<open>str\<close> is a sequence of Unicode code points, and the model has it as the
  list of their numbers. Strings are compared code point by code point, which is the
  order of \<open>List_Lexorder\<close> on such lists. \<open>ascii\<close> reads a literal of the
  program text.
\<close>

type_synonym str = "nat list"

definition ascii :: "string \<Rightarrow> str" where
  "ascii s = map of_char s"

text \<open>
  The program uses three tables of Python's Unicode database, which is not part of
  the source: \<open>str.upper\<close>, \<open>str.lower\<close>, and the value of a decimal digit (the
  characters that \<^verbatim>\<open>\d\<close> matches in a pattern over \<open>str\<close>). On ASCII text the
  three are fixed and written out below; for every other text and character they are
  the fields of \<open>unicode_db\<close>, an argument of each function that needs one.
\<close>

record unicode_db =
  db_upper :: "str \<Rightarrow> str"
  db_lower :: "str \<Rightarrow> str"
  db_decimal :: "nat \<Rightarrow> nat option"

definition is_ascii :: "str \<Rightarrow> bool" where
  "is_ascii s = list_all (\<lambda>c. c < 128) s"

definition ascii_upper :: "nat \<Rightarrow> nat" where
  "ascii_upper c = (if 97 \<le> c \<and> c \<le> 122 then c - 32 else c)"

definition ascii_lower :: "nat \<Rightarrow> nat" where
  "ascii_lower c = (if 65 \<le> c \<and> c \<le> 90 then c + 32 else c)"

definition upper :: "unicode_db \<Rightarrow> str \<Rightarrow> str" where
  "upper db s = (if is_ascii s then map ascii_upper s else db_upper db s)"

definition lower :: "unicode_db \<Rightarrow> str \<Rightarrow> str" where
  "lower db s = (if is_ascii s then map ascii_lower s else db_lower db s)"

definition decimal_value :: "unicode_db \<Rightarrow> nat \<Rightarrow> nat option" where
  "decimal_value db c =
     (if c < 128 then (if 48 \<le> c \<and> c \<le> 57 then Some (c - 48) else None)
      else db_decimal db c)"

text \<open>\<open>s.startswith(p)\<close>, and \<open>p in s\<close> on strings: \<open>p\<close> occurs in \<open>s\<close> at some position.\<close>

fun startswith :: "str \<Rightarrow> str \<Rightarrow> bool" where
  "startswith s [] = True"
| "startswith [] (p # ps) = False"
| "startswith (c # cs) (p # ps) = (c = p \<and> startswith cs ps)"

fun str_in :: "str \<Rightarrow> str \<Rightarrow> bool" where
  "str_in p [] = (p = [])"
| "str_in p (c # cs) = (startswith (c # cs) p \<or> str_in p cs)"

section \<open>Dictionaries\<close>

text \<open>
  A Python \<open>dict\<close> keeps its keys in insertion order; assigning to a key that is
  already there replaces the value and leaves the key where it is. The model is an
  association list with that assignment.
\<close>

type_synonym 'v dict = "(str \<times> 'v) list"

fun dict_set :: "'v dict \<Rightarrow> str \<Rightarrow> 'v \<Rightarrow> 'v dict" where
  "dict_set [] k v = [(k, v)]"
| "dict_set ((k', v') # d) k v =
     (if k' = k then (k, v) # d else (k', v') # dict_set d k v)"

definition dict_get :: "'v dict \<Rightarrow> str \<Rightarrow> 'v option" where
  "dict_get d k = map_of d k"

definition dict_keys :: "'v dict \<Rightarrow> str list" where
  "dict_keys d = map fst d"

definition dict_values :: "'v dict \<Rightarrow> 'v list" where
  "dict_values d = map snd d"

section \<open>XML elements\<close>

text \<open>
  An \<open>xml.etree.ElementTree.Element\<close>: its tag, its attributes and its child elements
  in document order. \<open>elem.get(key, default)\<close> is \<open>elem_get\<close>.
\<close>

datatype element =
  Element (tag: str) (attrib: "(str \<times> str) list") (children: "element list")

definition elem_get :: "element \<Rightarrow> str \<Rightarrow> str \<Rightarrow> str" where
  "elem_get e k d = (case map_of (attrib e) k of Some v \<Rightarrow> v | None \<Rightarrow> d)"

section \<open>The schema model (p6schema.py)\<close>

record Field =
  f_name :: str
  f_datatype :: str
  f_charlength :: str
  f_dataprecision :: str
  f_datascale :: str
  f_notnull :: str
  f_default :: str
  f_description :: str
  f_idcolumn :: str

definition Field_from_xml :: "element \<Rightarrow> Field" where
  "Field_from_xml e =
     \<lparr> f_name = elem_get e (ascii ''NAME'') (ascii ''''),
       f_datatype = elem_get e (ascii ''DATATYPE'') (ascii ''''),
       f_charlength = elem_get e (ascii ''CHARLENGTH'') (ascii ''''),
       f_dataprecision = elem_get e (ascii ''DATAPRECISION'') (ascii ''''),
       f_datascale = elem_get e (ascii ''DATASCALE'') (ascii ''''),
       f_notnull = elem_get e (ascii ''NOTNULL'') (ascii ''N''),
       f_default = elem_get e (ascii ''DEFAULT'') (ascii ''''),
       f_description = elem_get e (ascii ''DESC'') (ascii ''''),
       f_idcolumn = elem_get e (ascii ''IDCOLUMN'') (ascii ''N'') \<rparr>"

record Index =
  i_name :: str
  i_fields :: str
  i_uniqueness :: str
  i_tablespace :: str

definition Index_from_xml :: "element \<Rightarrow> Index" where
  "Index_from_xml e =
     \<lparr> i_name = elem_get e (ascii ''NAME'') (ascii ''''),
       i_fields = elem_get e (ascii ''FIELD'') (ascii ''''),
       i_uniqueness = elem_get e (ascii ''UNIQUENESS'') (ascii ''NONUNIQUE''),
       i_tablespace = elem_get e (ascii ''TABLESPACE'') (ascii '''') \<rparr>"

record Constraint =
  c_name :: str
  c_type :: str
  c_fields :: str
  c_target_table :: str
  c_target_fields :: str
  c_delete_rule :: str

definition Constraint_from_xml :: "element \<Rightarrow> Constraint" where
  "Constraint_from_xml e =
     \<lparr> c_name = elem_get e (ascii ''NAME'') (ascii ''''),
       c_type = elem_get e (ascii ''TYPE'') (ascii ''''),
       c_fields = elem_get e (ascii ''FIELDS'') (ascii ''''),
       c_target_table = elem_get e (ascii ''TARGETTABLE'') (ascii ''''),
       c_target_fields = elem_get e (ascii ''TARGETFIELDS'') (ascii ''''),
       c_delete_rule = elem_get e (ascii ''DELETERULE'') (ascii '''') \<rparr>"

record Trigger =
  tr_name :: str
  tr_set_type :: str
  tr_target :: str
  tr_description :: str

definition Trigger_from_xml :: "element \<Rightarrow> Trigger" where
  "Trigger_from_xml e =
     \<lparr> tr_name = elem_get e (ascii ''NAME'') (ascii ''''),
       tr_set_type = elem_get e (ascii ''SET'') (ascii ''''),
       tr_target = elem_get e (ascii ''TARGET'') (ascii ''''),
       tr_description = elem_get e (ascii ''DESC'') (ascii '''') \<rparr>"

record Table =
  t_name :: str
  t_description :: str
  t_title :: str
  t_tabletype :: str
  t_tablespace :: str
  t_ordinal :: str
  t_fields :: "Field list"
  t_indexes :: "Index list"
  t_constraints :: "Constraint list"
  t_triggers :: "Trigger list"

text \<open>
  The body of the loop of \<open>Table.from_xml\<close>: a child is appended to the collection of
  its tag, and a child with any other tag is skipped.
\<close>

definition add_child :: "Table \<Rightarrow> element \<Rightarrow> Table" where
  "add_child t child =
     (if tag child = ascii ''FIELD''
        then t\<lparr>t_fields := t_fields t @ [Field_from_xml child]\<rparr>
      else if tag child = ascii ''INDEX''
        then t\<lparr>t_indexes := t_indexes t @ [Index_from_xml child]\<rparr>
      else if tag child = ascii ''CONSTRAINT''
        then t\<lparr>t_constraints := t_constraints t @ [Constraint_from_xml child]\<rparr>
      else if tag child = ascii ''TRIGGER''
        then t\<lparr>t_triggers := t_triggers t @ [Trigger_from_xml child]\<rparr>
      else t)"

definition Table_from_xml :: "element \<Rightarrow> Table" where
  "Table_from_xml e =
     foldl add_child
       \<lparr> t_name = elem_get e (ascii ''NAME'') (ascii ''''),
         t_description = elem_get e (ascii ''DESC'') (ascii ''''),
         t_title = elem_get e (ascii ''TITLE'') (ascii ''''),
         t_tabletype = elem_get e (ascii ''TABLETYPE'') (ascii ''NORMAL''),
         t_tablespace = elem_get e (ascii ''TABLESPACE'') (ascii ''''),
         t_ordinal = elem_get e (ascii ''ORDINAL'') (ascii ''''),
         t_fields = [], t_indexes = [], t_constraints = [], t_triggers = [] \<rparr>
       (children e)"

record Schema =
  s_version :: str
  s_dbtype :: str
  s_build_version :: str
  s_min_pro_version :: str
  s_tables :: "Table dict"
  s_source_path :: str

text \<open>
  \<open>Schema.from_xml\<close> once the specifier is resolved to \<open>path\<close> and the document is
  parsed to its root element: the tables are the \<open>TABLE\<close> children of the root
  (\<open>root.findall("TABLE")\<close>), stored under their names, a later one replacing an
  earlier one of the same name.
\<close>

definition add_table :: "Schema \<Rightarrow> element \<Rightarrow> Schema" where
  "add_table s table_elem =
     (let table = Table_from_xml table_elem
      in s\<lparr>s_tables := dict_set (s_tables s) (t_name table) table\<rparr>)"

definition Schema_from_xml :: "str \<Rightarrow> element \<Rightarrow> Schema" where
  "Schema_from_xml path root =
     foldl add_table
       \<lparr> s_version = elem_get root (ascii ''VERSION'') (ascii ''''),
         s_dbtype = elem_get root (ascii ''DBTYPE'') (ascii ''''),
         s_build_version = elem_get root (ascii ''BUILD_VERSION_ID'') (ascii ''''),
         s_min_pro_version = elem_get root (ascii ''MIN_PRO_VERSION'') (ascii ''''),
         s_tables = [],
         s_source_path = path \<rparr>
       (filter (\<lambda>c. tag c = ascii ''TABLE'') (children root))"

section \<open>The query engine\<close>

definition get_table :: "unicode_db \<Rightarrow> Schema \<Rightarrow> str \<Rightarrow> Table option" where
  "get_table db s name = dict_get (s_tables s) (upper db name)"

definition search_tables :: "unicode_db \<Rightarrow> Schema \<Rightarrow> str \<Rightarrow> Table list" where
  "search_tables db s pattern =
     (let pattern = upper db pattern
      in map snd (filter (\<lambda>(name, t). str_in pattern name) (s_tables s)))"

definition search_fields :: "unicode_db \<Rightarrow> Schema \<Rightarrow> str \<Rightarrow> (str \<times> Field) list" where
  "search_fields db s pattern =
     (let pattern = upper db pattern
      in concat (map (\<lambda>table.
           map (\<lambda>f. (t_name table, f))
             (filter (\<lambda>f. str_in pattern (upper db (f_name f))) (t_fields table)))
         (dict_values (s_tables s))))"

text \<open>The dictionary that \<open>search_relationships\<close> builds for a matching constraint.\<close>

record rel_match =
  m_source_table :: str
  m_constraint :: str
  m_fields :: str
  m_target_table :: str
  m_target_fields :: str

definition rel_of :: "Table \<Rightarrow> Constraint \<Rightarrow> rel_match" where
  "rel_of table c =
     \<lparr> m_source_table = t_name table,
       m_constraint = c_name c,
       m_fields = c_fields c,
       m_target_table = c_target_table c,
       m_target_fields = c_target_fields c \<rparr>"

definition rel_matches :: "unicode_db \<Rightarrow> str \<Rightarrow> Table \<Rightarrow> Constraint \<Rightarrow> bool" where
  "rel_matches db pattern table c =
     (str_in pattern (upper db (t_name table)) \<or>
      str_in pattern (upper db (c_target_table c)) \<or>
      str_in pattern (upper db (c_fields c)) \<or>
      str_in pattern (upper db (c_target_fields c)) \<or>
      str_in pattern (upper db (c_name c)))"

definition search_relationships :: "unicode_db \<Rightarrow> Schema \<Rightarrow> str \<Rightarrow> rel_match list" where
  "search_relationships db s pattern =
     (let pattern = upper db pattern
      in concat (map (\<lambda>table.
           map (rel_of table)
             (filter (\<lambda>c. c_type c = ascii ''FOREIGN'' \<and> rel_matches db pattern table c)
                (t_constraints table)))
         (dict_values (s_tables s))))"

subsection \<open>Relationships of a table\<close>

text \<open>
  \<open>get_relationships\<close> of p6schema_mcp.py; \<open>cmd_relationships\<close> of p6schema.py builds
  the same two lists before printing them.
\<close>

record outgoing_rel =
  o_constraint :: str
  o_fields :: str
  o_references_table :: str
  o_references_fields :: str

record incoming_rel =
  in_table :: str
  in_constraint :: str
  in_fields :: str
  in_references_fields :: str

record relationships =
  r_table :: str
  r_outgoing :: "outgoing_rel list"
  r_incoming :: "incoming_rel list"
  r_outgoing_count :: nat
  r_incoming_count :: nat

datatype query_error = TableNotFound str

definition outgoing_of :: "Constraint \<Rightarrow> outgoing_rel" where
  "outgoing_of c =
     \<lparr> o_constraint = c_name c,
       o_fields = c_fields c,
       o_references_table = c_target_table c,
       o_references_fields = c_target_fields c \<rparr>"

definition incoming_of :: "Table \<Rightarrow> Constraint \<Rightarrow> incoming_rel" where
  "incoming_of other_table c =
     \<lparr> in_table = t_name other_table,
       in_constraint = c_name c,
       in_fields = c_fields c,
       in_references_fields = c_target_fields c \<rparr>"

definition outgoing_list :: "Table \<Rightarrow> outgoing_rel list" where
  "outgoing_list t =
     map outgoing_of (filter (\<lambda>c. c_type c = ascii ''FOREIGN'') (t_constraints t))"

definition incoming_list :: "unicode_db \<Rightarrow> Schema \<Rightarrow> Table \<Rightarrow> incoming_rel list" where
  "incoming_list db s t =
     concat (map (\<lambda>other_table.
         if t_name other_table = t_name t then []
         else map (incoming_of other_table)
                (filter (\<lambda>c. c_type c = ascii ''FOREIGN'' \<and>
                              upper db (c_target_table c) = upper db (t_name t))
                   (t_constraints other_table)))
       (dict_values (s_tables s)))"

definition get_relationships ::
  "unicode_db \<Rightarrow> Schema \<Rightarrow> str \<Rightarrow> query_error + relationships" where
  "get_relationships db s table =
     (case get_table db s table of
        None \<Rightarrow> Inl (TableNotFound table)
      | Some t \<Rightarrow>
          (let outgoing = outgoing_list t; incoming = incoming_list db s t
           in Inr \<lparr> r_table = t_name t,
                    r_outgoing = outgoing,
                    r_incoming = incoming,
                    r_outgoing_count = length outgoing,
                    r_incoming_count = length incoming \<rparr>))"

subsection \<open>Comparing two schemas\<close>

text \<open>
  \<open>compare_schemas\<close> of p6schema_mcp.py (the JSON branch of \<open>cmd_compare\<close> computes the
  same three collections). The loop over \<open>common\<close> visits a Python set, whose
  iteration order is not fixed: the order is the argument \<open>iter\<close>, which lists the
  members of a set of names. Every member of \<open>common\<close> is a key of both
  dictionaries, so the two lookups of the loop body find their tables.
\<close>

record table_diff =
  d_table :: str
  d_added_fields :: "str list"
  d_removed_fields :: "str list"

record comparison =
  cmp_schema1 :: "str \<times> nat"
  cmp_schema2 :: "str \<times> nat"
  cmp_added_tables :: "str list"
  cmp_removed_tables :: "str list"
  cmp_modified_tables :: "table_diff list"

definition modified_entry :: "Schema \<Rightarrow> Schema \<Rightarrow> str \<Rightarrow> table_diff list" where
  "modified_entry s1 s2 name =
     (case (dict_get (s_tables s1) name, dict_get (s_tables s2) name) of
        (Some t1, Some t2) \<Rightarrow>
          (let f1 = set (map f_name (t_fields t1));
               f2 = set (map f_name (t_fields t2))
           in if f1 \<noteq> f2
              then [\<lparr> d_table = name,
                      d_added_fields = sorted_list_of_set (f2 - f1),
                      d_removed_fields = sorted_list_of_set (f1 - f2) \<rparr>]
              else [])
      | _ \<Rightarrow> [])"

definition compare_schemas ::
  "(str set \<Rightarrow> str list) \<Rightarrow> Schema \<Rightarrow> Schema \<Rightarrow> comparison" where
  "compare_schemas iter s1 s2 =
     (let tables1 = set (dict_keys (s_tables s1));
          tables2 = set (dict_keys (s_tables s2));
          added = tables2 - tables1;
          removed = tables1 - tables2;
          common = tables1 \<inter> tables2
      in \<lparr> cmp_schema1 = (s_version s1, card tables1),
           cmp_schema2 = (s_version s2, card tables2),
           cmp_added_tables = sorted_list_of_set added,
           cmp_removed_tables = sorted_list_of_set removed,
           cmp_modified_tables = concat (map (modified_entry s1 s2) (iter common)) \<rparr>)"

section \<open>The schema registry\<close>

text \<open>
  A \<open>pathlib.Path\<close> that \<open>iterdir\<close> yields, by what the program reads of it: its text
  (\<open>str(path)\<close>), its last component (\<open>path.name\<close>) and whether it is a regular file
  (\<open>path.is_file()\<close>). A registry entry keeps the path as it is.
\<close>

record dir_path =
  p_text :: str
  p_name :: str
  p_is_file :: bool

record SchemaEntry =
  e_application :: str
  e_version :: str
  e_path :: dir_path

definition entry_key :: "SchemaEntry \<Rightarrow> str" where
  "entry_key e = e_application e @ ascii '':'' @ e_version e"

text \<open>
  \<open>FILENAME_PATTERN.match(name)\<close> for the pattern
  \<^verbatim>\<open>^(eppm|ppm)_(\d{2})_(\d{2})_schema\.xml$\<close> with \<open>re.IGNORECASE\<close>; the result
  is the three groups.
  \<^item> \<^verbatim>\<open>\d\<close> matches every Unicode decimal digit, not the ASCII ones alone.
  \<^item> Under \<open>re.IGNORECASE\<close> a letter of the pattern matches itself and its capital;
    of the letters of this pattern, \<open>s\<close> also matches the long s, U+017F. The
    characters \<open>_\<close> and \<open>.\<close> match themselves only.
  \<^item> \<open>$\<close> matches at the end, and before a newline that ends the string.
\<close>

definition is_digit :: "unicode_db \<Rightarrow> nat \<Rightarrow> bool" where
  "is_digit db c = (decimal_value db c \<noteq> None)"

definition ignore_case :: "nat \<Rightarrow> nat \<Rightarrow> bool" where
  "ignore_case p c =
     (c = p \<or> (97 \<le> p \<and> p \<le> 122 \<and> c = p - 32) \<or> (p = 115 \<and> c = 383))"

definition matches_literal :: "str \<Rightarrow> str \<Rightarrow> bool" where
  "matches_literal pat s = list_all2 ignore_case pat s"

definition matches_to_end :: "str \<Rightarrow> str \<Rightarrow> bool" where
  "matches_to_end pat s =
     (matches_literal pat s \<or>
      (s \<noteq> [] \<and> last s = 10 \<and> matches_literal pat (butlast s)))"

fun match_rest :: "unicode_db \<Rightarrow> str \<Rightarrow> (str \<times> str) option" where
  "match_rest db (u1 # d1 # d2 # u2 # d3 # d4 # rest) =
     (if u1 = 95 \<and> is_digit db d1 \<and> is_digit db d2 \<and>
         u2 = 95 \<and> is_digit db d3 \<and> is_digit db d4 \<and>
         matches_to_end (ascii ''_schema.xml'') rest
      then Some ([d1, d2], [d3, d4]) else None)"
| "match_rest db _ = None"

definition match_app :: "unicode_db \<Rightarrow> str \<Rightarrow> str \<Rightarrow> (str \<times> str \<times> str) option" where
  "match_app db app name =
     (if matches_literal app (take (length app) name)
      then (case match_rest db (drop (length app) name) of
              Some (major, minor) \<Rightarrow> Some (take (length app) name, major, minor)
            | None \<Rightarrow> None)
      else None)"

definition match_filename :: "unicode_db \<Rightarrow> str \<Rightarrow> (str \<times> str \<times> str) option" where
  "match_filename db name =
     (case match_app db (ascii ''eppm'') name of
        Some g \<Rightarrow> Some g
      | None \<Rightarrow> match_app db (ascii ''ppm'') name)"

text \<open>
  \<open>SchemaRegistry._scan\<close>: the directory is given by what \<open>iterdir\<close> yields, in the
  order of the iteration (\<open>None\<close> when the directory does not exist).
\<close>

definition scan_step :: "unicode_db \<Rightarrow> SchemaEntry dict \<Rightarrow> dir_path \<Rightarrow> SchemaEntry dict" where
  "scan_step db entries path =
     (if \<not> p_is_file path then entries
      else (case match_filename db (p_name path) of
              None \<Rightarrow> entries
            | Some (g1, major, minor) \<Rightarrow>
                (let entry = \<lparr> e_application = lower db g1,
                               e_version = major @ ascii ''.'' @ minor,
                               e_path = path \<rparr>
                 in dict_set entries (entry_key entry) entry)))"

definition scan :: "unicode_db \<Rightarrow> dir_path list option \<Rightarrow> SchemaEntry dict" where
  "scan db listing =
     (case listing of None \<Rightarrow> [] | Some paths \<Rightarrow> foldl (scan_step db) [] paths)"

text \<open>\<open>sorted(..., key=...)\<close> is a stable sort, as \<^const>\<open>sort_key\<close> is.\<close>

definition list_by_app :: "unicode_db \<Rightarrow> SchemaEntry dict \<Rightarrow> str \<Rightarrow> SchemaEntry list" where
  "list_by_app db entries application =
     (let app = lower db application
      in sort_key e_version (filter (\<lambda>e. e_application e = app) (dict_values entries)))"

definition get_latest :: "unicode_db \<Rightarrow> SchemaEntry dict \<Rightarrow> str \<Rightarrow> SchemaEntry option" where
  "get_latest db entries application =
     (let es = list_by_app db entries application
      in if es = [] then None else Some (last es))"

text \<open>
  The numeric reading of a version that the specification asks for: the pair
  (major, minor) of the decimal numbers before and after the dot, ordered by major
  first. This is the specification's comparison, not a function of the source.
\<close>

definition digit_val :: "unicode_db \<Rightarrow> nat \<Rightarrow> nat" where
  "digit_val db c = (case decimal_value db c of Some v \<Rightarrow> v | None \<Rightarrow> 0)"

definition decimal :: "unicode_db \<Rightarrow> str \<Rightarrow> nat" where
  "decimal db s = foldl (\<lambda>n c. 10 * n + digit_val db c) 0 s"

definition numeric_version :: "unicode_db \<Rightarrow> str \<Rightarrow> nat \<times> nat" where
  "numeric_version db v =
     (decimal db (takeWhile (\<lambda>c. c \<noteq> 46) v),
      decimal db (drop 1 (dropWhile (\<lambda>c. c \<noteq> 46) v)))"

definition version_le :: "nat \<times> nat \<Rightarrow> nat \<times> nat \<Rightarrow> bool" where
  "version_le a b = (fst a < fst b \<or> (fst a = fst b \<and> snd a \<le> snd b))"

section \<open>The configuration file\<close>

text \<open>
  \<open>load_config\<close> calls \<open>CONFIG_FILE.exists()\<close>, \<open>CONFIG_FILE.read_text()\<close> and
  \<open>json.loads\<close>. What these calls do is the input of the model: whether the file
  exists, what reading it gives (the decoded text or the exception raised), and the
  parser as a function from the text to a value or the exception raised. An exception
  is a value; \<open>OSError\<close> stands for the class with its subclasses.
\<close>

datatype py_exception = JSONDecodeError | OSError | UnicodeDecodeError | RecursionError

datatype json =
  JNull | JBool bool | JNumber int | JString str
  | JArray "json list" | JObject "(str \<times> json) list"

record config_file =
  file_exists :: bool
  read_text :: "py_exception + str"

text \<open>The clause \<open>except (json.JSONDecodeError, OSError)\<close>.\<close>

definition caught :: "py_exception \<Rightarrow> bool" where
  "caught e = (e = JSONDecodeError \<or> e = OSError)"

definition load_config ::
  "(str \<Rightarrow> py_exception + json) \<Rightarrow> config_file \<Rightarrow> py_exception + json" where
  "load_config json_loads cf =
     (if \<not> file_exists cf then Inr (JObject [])
      else (case read_text cf of
              Inl e \<Rightarrow> (if caught e then Inr (JObject []) else Inl e)
            | Inr text \<Rightarrow>
                (case json_loads text of
                   Inl e \<Rightarrow> (if caught e then Inr (JObject []) else Inl e)
                 | Inr v \<Rightarrow> Inr v)))"

section \<open>Notions of the specification\<close>

text \<open>
  \<open>reads e k d r\<close>: the result \<open>r\<close> is the value of the attribute \<open>k\<close> of the
  element \<open>e\<close> when \<open>e\<close> has that attribute, and the default \<open>d\<close> when it has not.
\<close>

definition reads :: "element \<Rightarrow> str \<Rightarrow> str \<Rightarrow> str \<Rightarrow> bool" where
  "reads e k d r \<longleftrightarrow>
     (\<forall>v. map_of (attrib e) k = Some v \<longrightarrow> r = v) \<and>
     (map_of (attrib e) k = None \<longrightarrow> r = d)"


section \<open>Example documents\<close>

text \<open>
  A document whose table \<open>PROJWBS\<close> has a foreign key to itself, and whose table
  \<open>TASK\<close> has a foreign key to \<open>PROJWBS\<close>.
\<close>

definition projwbs_root :: element where
  "projwbs_root =
     Element (ascii ''SCHEMA'') [(ascii ''VERSION'', ascii ''24.12'')]
       [Element (ascii ''TABLE'') [(ascii ''NAME'', ascii ''PROJWBS'')]
          [Element (ascii ''FIELD'')
             [(ascii ''NAME'', ascii ''WBS_ID''), (ascii ''DATATYPE'', ascii ''integer'')] [],
           Element (ascii ''FIELD'')
             [(ascii ''NAME'', ascii ''PARENT_WBS_ID''),
              (ascii ''DATATYPE'', ascii ''integer'')] [],
           Element (ascii ''CONSTRAINT'')
             [(ascii ''NAME'', ascii ''PK_PROJWBS''), (ascii ''TYPE'', ascii ''PRIMARY''),
              (ascii ''FIELDS'', ascii ''WBS_ID'')] [],
           Element (ascii ''CONSTRAINT'')
             [(ascii ''NAME'', ascii ''FK_PROJWBS_PROJWBS''), (ascii ''TYPE'', ascii ''FOREIGN''),
              (ascii ''FIELDS'', ascii ''PARENT_WBS_ID''),
              (ascii ''TARGETTABLE'', ascii ''PROJWBS''),
              (ascii ''TARGETFIELDS'', ascii ''WBS_ID'')] []],
        Element (ascii ''TABLE'') [(ascii ''NAME'', ascii ''TASK'')]
          [Element (ascii ''FIELD'')
             [(ascii ''NAME'', ascii ''TASK_ID''), (ascii ''DATATYPE'', ascii ''integer'')] [],
           Element (ascii ''CONSTRAINT'')
             [(ascii ''NAME'', ascii ''FK_TASK_PROJWBS''), (ascii ''TYPE'', ascii ''FOREIGN''),
              (ascii ''FIELDS'', ascii ''WBS_ID''), (ascii ''TARGETTABLE'', ascii ''PROJWBS''),
              (ascii ''TARGETFIELDS'', ascii ''WBS_ID'')] []]]"

text \<open>A document with one table, whose name is written in lower case.\<close>

definition activity_root :: element where
  "activity_root =
     Element (ascii ''SCHEMA'') [(ascii ''VERSION'', ascii ''24.12'')]
       [Element (ascii ''TABLE'') [(ascii ''NAME'', ascii ''activity'')]
          [Element (ascii ''FIELD'')
             [(ascii ''NAME'', ascii ''activity_id''),
              (ascii ''DATATYPE'', ascii ''integer'')] []]]"


text \<open>
  A document whose only foreign key has the pattern \<open>ACT\<close> in the name of the
  constraint and nowhere else.
\<close>

definition rsrc_root :: element where
  "rsrc_root =
     Element (ascii ''SCHEMA'') [(ascii ''VERSION'', ascii ''24.12'')]
       [Element (ascii ''TABLE'') [(ascii ''NAME'', ascii ''TASKRSRC'')]
          [Element (ascii ''CONSTRAINT'')
             [(ascii ''NAME'', ascii ''PK_TASKRSRC''), (ascii ''TYPE'', ascii ''PRIMARY''),
              (ascii ''FIELDS'', ascii ''TASKRSRC_ID'')] [],
           Element (ascii ''CONSTRAINT'')
             [(ascii ''NAME'', ascii ''FK_ACT_RSRC''), (ascii ''TYPE'', ascii ''FOREIGN''),
              (ascii ''FIELDS'', ascii ''PROJ_ID''), (ascii ''TARGETTABLE'', ascii ''PROJECT''),
              (ascii ''TARGETFIELDS'', ascii ''PROJ_ID'')] []]]"

text \<open>
  A schema directory with two files of the application \<open>eppm\<close>: version 25.01 in
  ASCII digits, and version 24.12 in Arabic-Indic digits (U+0660 to U+0669), which
  \<^verbatim>\<open>\d\<close> matches too.
\<close>

definition file_25_01 :: dir_path where
  "file_25_01 =
     \<lparr> p_text = ascii ''schemas/eppm_25_01_schema.xml'',
       p_name = ascii ''eppm_25_01_schema.xml'',
       p_is_file = True \<rparr>"

definition file_24_12 :: dir_path where
  "file_24_12 =
     \<lparr> p_text = ascii ''schemas/eppm_'' @ [0x662, 0x664, 95, 0x661, 0x662] @ ascii ''_schema.xml'',
       p_name = ascii ''eppm_'' @ [0x662, 0x664, 95, 0x661, 0x662] @ ascii ''_schema.xml'',
       p_is_file = True \<rparr>"

text \<open>The rows of the table of decimal digits for the Arabic-Indic digits.\<close>

definition arabic_indic_db :: unicode_db where
  "arabic_indic_db =
     \<lparr> db_upper = (\<lambda>s. s), db_lower = (\<lambda>s. s),
       db_decimal = (\<lambda>c. if 0x660 \<le> c \<and> c \<le> 0x669 then Some (c - 0x660) else None) \<rparr>"

section \<open>Versions in ASCII digits\<close>

text \<open>\<open>version_shape v\<close>: two ASCII digits, a dot and two ASCII digits.\<close>

definition ascii_digit :: "nat \<Rightarrow> bool" where
  "ascii_digit c = (48 \<le> c \<and> c \<le> 57)"

definition version_shape :: "str \<Rightarrow> bool" where
  "version_shape v \<longleftrightarrow>
     (\<exists>a b c d. v = [a, b, 46, c, d] \<and>
        ascii_digit a \<and> ascii_digit b \<and> ascii_digit c \<and> ascii_digit d)"

section \<open>Literals\<close>

lemma ascii_eq_iff [simp]: "ascii s = ascii t \<longleftrightarrow> s = t"
proof -
  have "inj (of_char :: char \<Rightarrow> nat)" by (rule inj_of_char)
  then show ?thesis unfolding ascii_def by (simp add: inj_map_eq_map)
qed

lemma ascii_empty [simp]: "ascii '''' = []"
  by (simp add: ascii_def)

lemma ascii_eq_Nil [simp]: "ascii s = [] \<longleftrightarrow> s = []" "[] = ascii s \<longleftrightarrow> s = []"
  by (auto simp: ascii_def)

lemma upper_empty [simp]: "upper db [] = []"
  by (simp add: upper_def is_ascii_def)

section \<open>Substring search\<close>



lemma str_in_empty: "str_in [] s"
  by (cases s) simp_all


section \<open>Attribute defaults of fields and indexes\<close>

text \<open>
  Claim C7. \<open>Field.from_xml\<close> and \<open>Index.from_xml\<close> are total, and each attribute of
  the record is read from the element: the value of the attribute as it stands when
  the element has it; \<open>N\<close> for a missing \<open>NOTNULL\<close> or \<open>IDCOLUMN\<close>, \<open>NONUNIQUE\<close>
  for a missing \<open>UNIQUENESS\<close> of an index, and the empty string for every other
  missing attribute.
\<close>

theorem from_xml_attribute_defaults:
  "reads fe (ascii ''NAME'') (ascii '''') (f_name (Field_from_xml fe)) \<and>
   reads fe (ascii ''DATATYPE'') (ascii '''') (f_datatype (Field_from_xml fe)) \<and>
   reads fe (ascii ''CHARLENGTH'') (ascii '''') (f_charlength (Field_from_xml fe)) \<and>
   reads fe (ascii ''DATAPRECISION'') (ascii '''') (f_dataprecision (Field_from_xml fe)) \<and>
   reads fe (ascii ''DATASCALE'') (ascii '''') (f_datascale (Field_from_xml fe)) \<and>
   reads fe (ascii ''NOTNULL'') (ascii ''N'') (f_notnull (Field_from_xml fe)) \<and>
   reads fe (ascii ''DEFAULT'') (ascii '''') (f_default (Field_from_xml fe)) \<and>
   reads fe (ascii ''DESC'') (ascii '''') (f_description (Field_from_xml fe)) \<and>
   reads fe (ascii ''IDCOLUMN'') (ascii ''N'') (f_idcolumn (Field_from_xml fe)) \<and>
   reads ie (ascii ''NAME'') (ascii '''') (i_name (Index_from_xml ie)) \<and>
   reads ie (ascii ''FIELD'') (ascii '''') (i_fields (Index_from_xml ie)) \<and>
   reads ie (ascii ''UNIQUENESS'') (ascii ''NONUNIQUE'') (i_uniqueness (Index_from_xml ie)) \<and>
   reads ie (ascii ''TABLESPACE'') (ascii '''') (i_tablespace (Index_from_xml ie))"
  by (simp add: reads_def Field_from_xml_def Index_from_xml_def elem_get_def)

theorem from_xml_attribute_defaults_witness:
  "f_name (Field_from_xml (Element (ascii ''FIELD'')
      [(ascii ''NAME'', ascii ''task_id''), (ascii ''DATATYPE'', ascii ''integer'')] []))
     = ascii ''task_id'' \<and>
   f_notnull (Field_from_xml (Element (ascii ''FIELD'')
      [(ascii ''NAME'', ascii ''task_id''), (ascii ''DATATYPE'', ascii ''integer'')] []))
     = ascii ''N'' \<and>
   f_idcolumn (Field_from_xml (Element (ascii ''FIELD'')
      [(ascii ''NAME'', ascii ''task_id''), (ascii ''DATATYPE'', ascii ''integer'')] []))
     = ascii ''N'' \<and>
   f_charlength (Field_from_xml (Element (ascii ''FIELD'')
      [(ascii ''NAME'', ascii ''task_id''), (ascii ''DATATYPE'', ascii ''integer'')] []))
     = ascii '''' \<and>
   i_fields (Index_from_xml (Element (ascii ''INDEX'') [(ascii ''FIELD'', ascii ''task_id'')] []))
     = ascii ''task_id'' \<and>
   i_uniqueness (Index_from_xml (Element (ascii ''INDEX'') [(ascii ''FIELD'', ascii ''task_id'')] []))
     = ascii ''NONUNIQUE''"
  using from_xml_attribute_defaults
    [of "Element (ascii ''FIELD'')
           [(ascii ''NAME'', ascii ''task_id''), (ascii ''DATATYPE'', ascii ''integer'')] []"
        "Element (ascii ''INDEX'') [(ascii ''FIELD'', ascii ''task_id'')] []"]
  by (simp add: reads_def)

section \<open>Targets of a constraint\<close>

text \<open>
  \<open>Constraint.from_xml\<close> does not look at the type when it reads the target: a
  \<open>PRIMARY\<close> constraint whose element carries \<open>TARGETTABLE\<close> and \<open>TARGETFIELDS\<close>
  keeps both.
\<close>

theorem constraint_targets_unchecked_counterexample:
  "\<not> (c_type (Constraint_from_xml (Element (ascii ''CONSTRAINT'')
          [(ascii ''NAME'', ascii ''PK_TASK''), (ascii ''TYPE'', ascii ''PRIMARY''),
           (ascii ''FIELDS'', ascii ''TASK_ID''), (ascii ''TARGETTABLE'', ascii ''PROJECT''),
           (ascii ''TARGETFIELDS'', ascii ''PROJ_ID'')] [])) \<noteq> ascii ''FOREIGN''
       \<longrightarrow> c_target_table (Constraint_from_xml (Element (ascii ''CONSTRAINT'')
          [(ascii ''NAME'', ascii ''PK_TASK''), (ascii ''TYPE'', ascii ''PRIMARY''),
           (ascii ''FIELDS'', ascii ''TASK_ID''), (ascii ''TARGETTABLE'', ascii ''PROJECT''),
           (ascii ''TARGETFIELDS'', ascii ''PROJ_ID'')] [])) = ascii '''' \<and>
           c_target_fields (Constraint_from_xml (Element (ascii ''CONSTRAINT'')
          [(ascii ''NAME'', ascii ''PK_TASK''), (ascii ''TYPE'', ascii ''PRIMARY''),
           (ascii ''FIELDS'', ascii ''TASK_ID''), (ascii ''TARGETTABLE'', ascii ''PROJECT''),
           (ascii ''TARGETFIELDS'', ascii ''PROJ_ID'')] [])) = ascii '''')"
  by (simp add: Constraint_from_xml_def elem_get_def)

text \<open>
  Claim C5, amended. Whatever the type of the constraint, its target table and target
  fields are the attributes \<open>TARGETTABLE\<close> and \<open>TARGETFIELDS\<close> of the element as
  they stand, and the empty string where the element has no such attribute. So the
  targets of a constraint that is not \<open>FOREIGN\<close> are empty when its element carries
  neither attribute.
\<close>

theorem constraint_targets_from_attributes:
  "reads e (ascii ''TARGETTABLE'') (ascii '''') (c_target_table (Constraint_from_xml e)) \<and>
   reads e (ascii ''TARGETFIELDS'') (ascii '''') (c_target_fields (Constraint_from_xml e))"
  by (simp add: reads_def Constraint_from_xml_def elem_get_def)

theorem constraint_targets_from_attributes_witness:
  "c_type (Constraint_from_xml (Element (ascii ''CONSTRAINT'')
       [(ascii ''NAME'', ascii ''PK_TASK''), (ascii ''TYPE'', ascii ''PRIMARY''),
        (ascii ''FIELDS'', ascii ''TASK_ID'')] [])) = ascii ''PRIMARY'' \<and>
   c_target_table (Constraint_from_xml (Element (ascii ''CONSTRAINT'')
       [(ascii ''NAME'', ascii ''PK_TASK''), (ascii ''TYPE'', ascii ''PRIMARY''),
        (ascii ''FIELDS'', ascii ''TASK_ID'')] [])) = ascii '''' \<and>
   c_target_fields (Constraint_from_xml (Element (ascii ''CONSTRAINT'')
       [(ascii ''NAME'', ascii ''PK_TASK''), (ascii ''TYPE'', ascii ''PRIMARY''),
        (ascii ''FIELDS'', ascii ''TASK_ID'')] [])) = ascii ''''"
  using constraint_targets_from_attributes
    [of "Element (ascii ''CONSTRAINT'')
       [(ascii ''NAME'', ascii ''PK_TASK''), (ascii ''TYPE'', ascii ''PRIMARY''),
        (ascii ''FIELDS'', ascii ''TASK_ID'')] []"]
  by (simp add: reads_def Constraint_from_xml_def elem_get_def)

section \<open>Searching\<close>

text \<open>
  Claim C10. The empty pattern matches everything: \<open>search_tables\<close> returns every
  table, \<open>search_fields\<close> every pair of a table name and a field of that table, and
  \<open>search_relationships\<close> one record for each \<open>FOREIGN\<close> constraint.
\<close>

theorem empty_pattern_matches_everything:
  "search_tables db s (ascii '''') = dict_values (s_tables s) \<and>
   search_fields db s (ascii '''') =
     concat (map (\<lambda>table. map (\<lambda>f. (t_name table, f)) (t_fields table))
       (dict_values (s_tables s))) \<and>
   search_relationships db s (ascii '''') =
     concat (map (\<lambda>table.
         map (\<lambda>c. \<lparr> m_source_table = t_name table,
                     m_constraint = c_name c,
                     m_fields = c_fields c,
                     m_target_table = c_target_table c,
                     m_target_fields = c_target_fields c \<rparr>)
           (filter (\<lambda>c. c_type c = ascii ''FOREIGN'') (t_constraints table)))
       (dict_values (s_tables s)))"
  by (simp add: search_tables_def search_fields_def search_relationships_def rel_matches_def
      rel_of_def [abs_def] str_in_empty dict_values_def case_prod_unfold)


text \<open>
  The example of the specification: the pattern is found in the name of the constraint
  alone.
\<close>

lemma search_relationships_constraint_name:
  "search_relationships db (Schema_from_xml (ascii ''pmSchema.xml'') rsrc_root) (ascii ''act'') =
     [\<lparr> m_source_table = ascii ''TASKRSRC'', m_constraint = ascii ''FK_ACT_RSRC'',
        m_fields = ascii ''PROJ_ID'', m_target_table = ascii ''PROJECT'',
        m_target_fields = ascii ''PROJ_ID'' \<rparr>]"
  by code_simp

text \<open>
  Claim C2. \<open>search_tables\<close> puts the pattern in upper case and looks for it in the
  name of the table as it is stored: a table named \<open>activity\<close> is not found by the
  pattern \<open>Act\<close>, where \<open>search_fields\<close> and \<open>search_relationships\<close> put the name
  in upper case too.
\<close>

theorem search_tables_lower_case_name:
  "map t_name (dict_values (s_tables (Schema_from_xml (ascii ''pmSchema.xml'') activity_root)))
     = [ascii ''activity''] \<and>
   search_tables db (Schema_from_xml (ascii ''pmSchema.xml'') activity_root) (ascii ''Act'') = []"
  by code_simp

section \<open>Looking a table up\<close>

text \<open>
  Claim C1. \<open>get_table\<close> looks the upper-cased name up among the keys, which are the
  names of the tables as the document has them: a table named \<open>activity\<close> is found
  under no spelling of its name.
\<close>

theorem get_table_lower_case_name:
  "dict_keys (s_tables (Schema_from_xml (ascii ''pmSchema.xml'') activity_root))
     = [ascii ''activity''] \<and>
   get_table db (Schema_from_xml (ascii ''pmSchema.xml'') activity_root) (ascii ''activity'')
     = None \<and>
   get_table db (Schema_from_xml (ascii ''pmSchema.xml'') activity_root) (ascii ''ACTIVITY'')
     = None"
  by code_simp

text \<open>
  In a parsed schema every table is stored under its own name. So the table that
  \<open>get_table\<close> finds has the upper-case form of the name asked for as its name, and
  a table is found under its own name when that name is its own upper-case form.
\<close>

lemma dict_set_keys:
  "map fst (dict_set d k v) = (if k \<in> set (map fst d) then map fst d else map fst d @ [k])"
  by (induction d k v rule: dict_set.induct) (auto simp: image_iff)

lemma dict_set_subset: "set (dict_set d k v) \<subseteq> insert (k, v) (set d)"
  by (induction d k v rule: dict_set.induct) auto

lemma add_table_keys:
  assumes "distinct (map fst (s_tables s))" "\<forall>(k, t) \<in> set (s_tables s). t_name t = k"
  shows "distinct (map fst (s_tables (add_table s e))) \<and>
         (\<forall>(k, t) \<in> set (s_tables (add_table s e)). t_name t = k)"
proof -
  let ?t = "Table_from_xml e"
  have "distinct (map fst (dict_set (s_tables s) (t_name ?t) ?t))"
    using assms(1) by (simp add: dict_set_keys)
  moreover have "\<forall>(k, t) \<in> set (dict_set (s_tables s) (t_name ?t) ?t). t_name t = k"
    using assms(2) dict_set_subset [of "s_tables s" "t_name ?t" ?t] by auto
  ultimately show ?thesis by (simp add: add_table_def Let_def)
qed

lemma foldl_add_table_keys:
  assumes "distinct (map fst (s_tables s))" "\<forall>(k, t) \<in> set (s_tables s). t_name t = k"
  shows "distinct (map fst (s_tables (foldl add_table s es))) \<and>
         (\<forall>(k, t) \<in> set (s_tables (foldl add_table s es)). t_name t = k)"
  using assms
proof (induction es arbitrary: s)
  case Nil
  then show ?case by simp
next
  case (Cons e es)
  have "distinct (map fst (s_tables (add_table s e)))"
    and "\<forall>(k, t) \<in> set (s_tables (add_table s e)). t_name t = k"
    using add_table_keys [OF Cons.prems, of e] by blast+
  then have "distinct (map fst (s_tables (foldl add_table (add_table s e) es))) \<and>
         (\<forall>(k, t) \<in> set (s_tables (foldl add_table (add_table s e) es)). t_name t = k)"
    by (rule Cons.IH)
  then show ?case by simp
qed

lemma parsed_keys:
  "distinct (map fst (s_tables (Schema_from_xml path root))) \<and>
   (\<forall>(k, t) \<in> set (s_tables (Schema_from_xml path root)). t_name t = k)"
  unfolding Schema_from_xml_def by (rule foldl_add_table_keys) simp_all

lemma get_table_found_name:
  assumes "get_table db (Schema_from_xml path root) name = Some t"
  shows "t_name t = upper db name"
proof -
  from assms have "(upper db name, t) \<in> set (s_tables (Schema_from_xml path root))"
    by (auto simp: get_table_def dict_get_def dest: map_of_SomeD)
  with parsed_keys [of path root] show ?thesis by auto
qed

lemma get_table_finds_upper_case:
  assumes "t \<in> set (dict_values (s_tables (Schema_from_xml path root)))"
    and "upper db (t_name t) = t_name t"
  shows "get_table db (Schema_from_xml path root) (t_name t) = Some t"
proof -
  from assms(1) obtain k where k: "(k, t) \<in> set (s_tables (Schema_from_xml path root))"
    by (auto simp: dict_values_def)
  with parsed_keys [of path root] have "k = t_name t" by auto
  with k parsed_keys [of path root] show ?thesis
    by (simp add: get_table_def dict_get_def assms(2))
qed

section \<open>Relationships of a table\<close>

text \<open>
  For the table that the lookup finds, the outgoing list has one record for each of
  its \<open>FOREIGN\<close> constraints, a foreign key to itself among them, and no record of
  the incoming list comes from a table of that name.
\<close>

lemma incoming_list_other:
  "row \<in> set (incoming_list db s t) \<Longrightarrow> in_table row \<noteq> t_name t"
  by (auto simp: incoming_list_def incoming_of_def split: if_splits)

lemma relationships_of_found_table:
  assumes "get_relationships db s name = Inr r"
  shows "\<exists>t. get_table db s name = Some t \<and>
           r_outgoing r =
             map (\<lambda>c. \<lparr> o_constraint = c_name c, o_fields = c_fields c,
                         o_references_table = c_target_table c,
                         o_references_fields = c_target_fields c \<rparr>)
               (filter (\<lambda>c. c_type c = ascii ''FOREIGN'') (t_constraints t)) \<and>
           (\<forall>row \<in> set (r_incoming r). in_table row \<noteq> t_name t)"
proof (cases "get_table db s name")
  case None
  with assms show ?thesis by (simp add: get_relationships_def)
next
  case (Some t)
  with assms have "r_outgoing r = outgoing_list t" and "r_incoming r = incoming_list db s t"
    by (auto simp: get_relationships_def Let_def)
  with Some show ?thesis
    by (auto simp: outgoing_list_def outgoing_of_def [abs_def] dest: incoming_list_other)
qed


section \<open>Comparing a schema with itself\<close>

text \<open>
  Claim C8. Comparing a schema with itself gives no added table, no removed table and
  no modified table, in whatever order the common names are visited.
\<close>

theorem compare_self:
  "cmp_added_tables (compare_schemas iter A A) = [] \<and>
   cmp_removed_tables (compare_schemas iter A A) = [] \<and>
   cmp_modified_tables (compare_schemas iter A A) = []"
proof -
  have "modified_entry A A name = []" for name
    by (simp add: modified_entry_def split: option.splits)
  then show ?thesis by (simp add: compare_schemas_def Let_def)
qed

section \<open>The latest version of an application\<close>

text \<open>
  \<open>get_latest\<close> sorts the versions as strings and takes the last. On versions of two
  ASCII digits, a dot and two ASCII digits, the order of the strings is the order of
  the pairs of numbers, and \<open>get_latest\<close> returns a highest version.
\<close>

lemma two_digit_order:
  fixes x1 x2 x3 x4 y1 y2 y3 y4 :: nat
  assumes "x2 \<le> 9" "y2 \<le> 9" "x4 \<le> 9" "y4 \<le> 9"
  shows "(x1 < y1 \<or> x1 = y1 \<and> (x2 < y2 \<or> x2 = y2 \<and> (x3 < y3 \<or> x3 = y3 \<and> (x4 < y4 \<or> x4 = y4))))
     \<longleftrightarrow> (10 * x1 + x2 < 10 * y1 + y2 \<or>
          10 * x1 + x2 = 10 * y1 + y2 \<and> 10 * x3 + x4 \<le> 10 * y3 + y4)"
  using assms by arith

lemma version_shapeE:
  assumes "version_shape v"
  obtains x1 x2 x3 x4 where "v = [48 + x1, 48 + x2, 46, 48 + x3, 48 + x4]"
    and "x1 \<le> 9" "x2 \<le> 9" "x3 \<le> 9" "x4 \<le> 9"
proof -
  have *: "\<exists>x\<le>9. a = 48 + x" if "ascii_digit a" for a
    using that unfolding ascii_digit_def by presburger
  from assms obtain a b c d where v: "v = [a, b, 46, c, d]"
    and d: "ascii_digit a" "ascii_digit b" "ascii_digit c" "ascii_digit d"
    unfolding version_shape_def by blast
  from * [OF d(1)] obtain x1 where "x1 \<le> 9" "a = 48 + x1" by blast
  moreover from * [OF d(2)] obtain x2 where "x2 \<le> 9" "b = 48 + x2" by blast
  moreover from * [OF d(3)] obtain x3 where "x3 \<le> 9" "c = 48 + x3" by blast
  moreover from * [OF d(4)] obtain x4 where "x4 \<le> 9" "d = 48 + x4" by blast
  ultimately show thesis using v that by simp
qed

lemma numeric_version_shape:
  assumes "x1 \<le> 9" "x2 \<le> 9" "x3 \<le> 9" "x4 \<le> 9"
  shows "numeric_version db [48 + x1, 48 + x2, 46, 48 + x3, 48 + x4]
           = (10 * x1 + x2, 10 * x3 + x4)"
  using assms by (simp add: numeric_version_def decimal_def digit_val_def decimal_value_def)

lemma version_order:
  assumes "version_shape v" "version_shape w"
  shows "v \<le> w \<longleftrightarrow> version_le (numeric_version db v) (numeric_version db w)"
proof -
  from assms(1) obtain x1 x2 x3 x4 where v: "v = [48 + x1, 48 + x2, 46, 48 + x3, 48 + x4]"
    and x: "x1 \<le> 9" "x2 \<le> 9" "x3 \<le> 9" "x4 \<le> 9"
    by (rule version_shapeE)
  from assms(2) obtain y1 y2 y3 y4 where w: "w = [48 + y1, 48 + y2, 46, 48 + y3, 48 + y4]"
    and y: "y1 \<le> 9" "y2 \<le> 9" "y3 \<le> 9" "y4 \<le> 9"
    by (rule version_shapeE)
  have "v \<le> w \<longleftrightarrow>
        (x1 < y1 \<or> x1 = y1 \<and> (x2 < y2 \<or> x2 = y2 \<and> (x3 < y3 \<or> x3 = y3 \<and> (x4 < y4 \<or> x4 = y4))))"
    unfolding v w by simp
  also have "\<dots> \<longleftrightarrow> version_le (numeric_version db v) (numeric_version db w)"
    unfolding v w
    by (simp only: numeric_version_shape [OF x] numeric_version_shape [OF y]
        version_le_def fst_conv snd_conv two_digit_order [OF x(2) y(2) x(4) y(4)])
  finally show ?thesis .
qed

lemma sorted_last_key: "sorted (map f ys) \<Longrightarrow> y \<in> set ys \<Longrightarrow> f y \<le> f (last ys)"
  by (induction ys) auto

lemma get_latest_None:
  "get_latest db d app = None \<longleftrightarrow>
     \<not> (\<exists>e \<in> set (dict_values d). e_application e = lower db app)"
proof -
  have "sort_key e_version xs = [] \<longleftrightarrow> xs = []" for xs :: "SchemaEntry list"
    by (metis length_sort length_0_conv)
  then show ?thesis
    by (auto simp: get_latest_def list_by_app_def Let_def filter_empty_conv)
qed

lemma get_latest_Some:
  assumes "get_latest db d app = Some e"
  shows "e \<in> set (dict_values d) \<and> e_application e = lower db app \<and>
         (\<forall>e' \<in> set (dict_values d).
            e_application e' = lower db app \<longrightarrow> e_version e' \<le> e_version e)"
proof -
  let ?es = "list_by_app db d app"
  from assms have ne: "?es \<noteq> []" and e: "e = last ?es"
    by (auto simp: get_latest_def Let_def split: if_splits)
  have set_es: "set ?es = {x \<in> set (dict_values d). e_application x = lower db app}"
    by (auto simp: list_by_app_def Let_def)
  have srt: "sorted (map e_version ?es)"
    by (simp add: list_by_app_def Let_def)
  from ne e have "e \<in> set ?es" by simp
  moreover have "e_version e' \<le> e_version e" if "e' \<in> set ?es" for e'
    unfolding e using srt that by (rule sorted_last_key)
  ultimately show ?thesis using set_es by auto
qed

lemma get_latest_ascii_versions:
  assumes "\<forall>e \<in> set (dict_values d). version_shape (e_version e)"
    and "get_latest db d app = Some e"
    and "e' \<in> set (dict_values d)" "e_application e' = lower db app"
  shows "version_le (numeric_version db (e_version e')) (numeric_version db (e_version e))"
proof -
  note gl = get_latest_Some [OF assms(2)]
  have "e_version e' \<le> e_version e" using gl assms(3,4) by blast
  moreover have "version_shape (e_version e')" "version_shape (e_version e)"
    using assms(1,3) gl by blast+
  ultimately show ?thesis using version_order [of "e_version e'" "e_version e" db] by simp
qed

text \<open>
  The pattern of the file names lets every Unicode decimal digit through, and there
  the two orders part.
\<close>

lemma match_25_01:
  "match_filename db (ascii ''eppm_25_01_schema.xml'') = Some (ascii ''eppm'', ascii ''25'', ascii ''01'')"
  by code_simp

lemma match_24_12:
  assumes "db_decimal db 0x661 = Some 1" "db_decimal db 0x662 = Some 2" "db_decimal db 0x664 = Some 4"
  shows "match_filename db (ascii ''eppm_'' @ [0x662, 0x664, 95, 0x661, 0x662] @ ascii ''_schema.xml'')
     = Some (ascii ''eppm'', [0x662, 0x664], [0x661, 0x662])"
proof -
  have d: "is_digit db 0x661" "is_digit db 0x662" "is_digit db 0x664"
    using assms by (simp_all add: is_digit_def decimal_value_def)
  have n: "ascii ''eppm_'' @ [0x662, 0x664, 95, 0x661, 0x662] @ ascii ''_schema.xml''
      = ascii ''eppm'' @ 95 # 0x662 # 0x664 # 95 # 0x661 # 0x662 # ascii ''_schema.xml''"
    by (simp add: ascii_def)
  have l: "length (ascii ''eppm'') = 4" by (simp add: ascii_def)
  have m: "matches_literal (ascii ''eppm'') (ascii ''eppm'')"
    "matches_to_end (ascii ''_schema.xml'') (ascii ''_schema.xml'')"
    by code_simp+
  show ?thesis
    unfolding n by (simp add: match_filename_def match_app_def l m d)
qed

text \<open>
  Claim C3. With the files of version 25.01 in ASCII digits and of version 24.12 in
  Arabic-Indic digits in the schema directory, \<open>get_latest\<close> returns the entry of
  version 24.12: its string is the greater one, and its version the lower one.
\<close>

theorem get_latest_unicode_digits:
  assumes "db_decimal db 0x661 = Some 1" "db_decimal db 0x662 = Some 2" "db_decimal db 0x664 = Some 4"
  shows "get_latest db (scan db (Some [file_25_01, file_24_12])) (ascii ''eppm'') =
           Some \<lparr> e_application = ascii ''eppm'',
                  e_version = [0x662, 0x664, 46, 0x661, 0x662],
                  e_path = file_24_12 \<rparr> \<and>
         numeric_version db [0x662, 0x664, 46, 0x661, 0x662] = (24, 12) \<and>
         numeric_version db (ascii ''25.01'') = (25, 1) \<and>
         \<not> version_le (numeric_version db (ascii ''25.01''))
             (numeric_version db [0x662, 0x664, 46, 0x661, 0x662])"
proof -
  let ?old = "\<lparr> e_application = ascii ''eppm'', e_version = ascii ''25.01'',
                 e_path = file_25_01 \<rparr>"
  let ?new = "\<lparr> e_application = ascii ''eppm'',
                 e_version = [0x662, 0x664, 46, 0x661, 0x662], e_path = file_24_12 \<rparr>"
  have lo: "lower db (ascii ''eppm'') = ascii ''eppm''" by code_simp
  have v1: "ascii ''25'' @ ascii ''.'' @ ascii ''01'' = ascii ''25.01''" by code_simp
  have dot: "ascii ''.'' = [46]"
    by (simp add: ascii_def)
  have ne: "ascii ''25.01'' \<noteq> [0x662, 0x664, 46, 0x661, 0x662]"
    by (simp add: ascii_def)
  have le: "ascii ''25.01'' \<le> [0x662, 0x664, 46, 0x661, 0x662]"
    by (simp add: ascii_def)
  have n1: "p_name file_25_01 = ascii ''eppm_25_01_schema.xml''" "p_is_file file_25_01"
    by (simp_all add: file_25_01_def)
  have n2: "p_name file_24_12 =
      ascii ''eppm_'' @ [0x662, 0x664, 95, 0x661, 0x662] @ ascii ''_schema.xml''"
    "p_is_file file_24_12"
    by (simp_all add: file_24_12_def)
  have s1: "scan_step db [] file_25_01 =
      [(ascii ''eppm'' @ ascii '':'' @ ascii ''25.01'', ?old)]"
    unfolding scan_step_def n1(1) match_25_01
    by (simp add: n1(2) lo v1 entry_key_def Let_def)
  have s2: "scan_step db [(ascii ''eppm'' @ ascii '':'' @ ascii ''25.01'', ?old)] file_24_12 =
      [(ascii ''eppm'' @ ascii '':'' @ ascii ''25.01'', ?old),
       (ascii ''eppm'' @ ascii '':'' @ [0x662, 0x664, 46, 0x661, 0x662], ?new)]"
    unfolding scan_step_def n2(1) match_24_12 [OF assms]
    by (simp add: n2(2) lo dot entry_key_def Let_def ne)
  have sc: "scan db (Some [file_25_01, file_24_12]) =
      [(ascii ''eppm'' @ ascii '':'' @ ascii ''25.01'', ?old),
       (ascii ''eppm'' @ ascii '':'' @ [0x662, 0x664, 46, 0x661, 0x662], ?new)]"
    by (simp add: scan_def s1 s2)
  have latest: "get_latest db (scan db (Some [file_25_01, file_24_12])) (ascii ''eppm'') = Some ?new"
    unfolding sc by (simp add: get_latest_def list_by_app_def lo dict_values_def Let_def le)
  have d: "digit_val db 0x661 = 1" "digit_val db 0x662 = 2" "digit_val db 0x664 = 4"
    using assms by (simp_all add: digit_val_def decimal_value_def)
  have nv_new: "numeric_version db [0x662, 0x664, 46, 0x661, 0x662] = (24, 12)"
    by (simp add: numeric_version_def decimal_def d)
  have nv_old: "numeric_version db (ascii ''25.01'') = (25, 1)"
    by code_simp
  show ?thesis
    unfolding latest nv_new nv_old by (simp add: version_le_def)
qed

theorem get_latest_unicode_digits_witness:
  "get_latest arabic_indic_db (scan arabic_indic_db (Some [file_25_01, file_24_12])) (ascii ''eppm'') =
     Some \<lparr> e_application = ascii ''eppm'',
            e_version = [0x662, 0x664, 46, 0x661, 0x662],
            e_path = file_24_12 \<rparr> \<and>
   numeric_version arabic_indic_db [0x662, 0x664, 46, 0x661, 0x662] = (24, 12) \<and>
   numeric_version arabic_indic_db (ascii ''25.01'') = (25, 1) \<and>
   \<not> version_le (numeric_version arabic_indic_db (ascii ''25.01''))
       (numeric_version arabic_indic_db [0x662, 0x664, 46, 0x661, 0x662])"
proof -
  have "db_decimal arabic_indic_db 0x661 = Some 1"
    "db_decimal arabic_indic_db 0x662 = Some 2"
    "db_decimal arabic_indic_db 0x664 = Some 4"
    by (simp_all add: arabic_indic_db_def)
  then show ?thesis by (rule get_latest_unicode_digits)
qed

section \<open>Loading the configuration\<close>

lemma load_config_absent: "\<not> file_exists cf \<Longrightarrow> load_config json_loads cf = Inr (JObject [])"
  by (simp add: load_config_def)

lemma load_config_caught:
  assumes "read_text cf = Inl e \<or> (\<exists>text. read_text cf = Inr text \<and> json_loads text = Inl e)"
    and "caught e"
  shows "load_config json_loads cf = Inr (JObject [])"
  using assms by (auto simp: load_config_def)

text \<open>
  Claim C9. \<open>load_config\<close> returns the empty mapping when the file is absent and when
  reading or parsing raises \<open>OSError\<close> or \<open>JSONDecodeError\<close>. An existing file
  whose bytes are not text in the encoding makes \<open>read_text\<close> raise
  \<open>UnicodeDecodeError\<close>, which the \<open>except\<close> clause does not name: the exception
  leaves \<open>load_config\<close>.
\<close>

theorem load_config_decode_error:
  "load_config json_loads \<lparr> file_exists = True, read_text = Inl UnicodeDecodeError \<rparr> =
     Inl UnicodeDecodeError"
  by (simp add: load_config_def caught_def)

end
